theory Spec2Isabelle
  imports Complex_Main "HOL-Library.Word"
begin

unbundle bit_operations_syntax

section \<open>Conventions\<close>

text \<open>
  The development embeds the cache decision engine of opti-llm: the class
  \<^verbatim>\<open>LocalEmbedding\<close> (embedding.ts), the class \<^verbatim>\<open>OptiLLM\<close> with its method
  \<^verbatim>\<open>capture\<close>, and the class \<^verbatim>\<open>QdrantCache\<close> (qdrant.ts) with \<^verbatim>\<open>search\<close>,
  \<^verbatim>\<open>store\<close> and \<^verbatim>\<open>cleanup\<close>.

  \<^item> A JavaScript string is a \<open>string\<close>; a \<open>char\<close> stands for the UTF-16 code unit of
    the same number (0 to 255).
  \<^item> A JavaScript number is a \<open>real\<close>: finite (no \<^verbatim>\<open>NaN\<close>, no \<^verbatim>\<open>Infinity\<close>). Time stamps
    are numbers (milliseconds), as \<^verbatim>\<open>Date.now()\<close> returns them. Arithmetic is exact, but for
    the expiry time that \<^verbatim>\<open>store\<close> computes: whether it lies after the write time depends
    on the rounding of binary64 arithmetic, which is written out there.
  \<^item> An optional field, or a value that may be \<^verbatim>\<open>undefined\<close>, is an \<open>option\<close>.
  \<^item> A rejected promise or a thrown exception is the left summand of \<open>error + 'a\<close>.
\<close>

type_synonym number = real

datatype error = Error string

section \<open>The local embedding provider\<close>

subsection \<open>Tokens\<close>

text \<open>
  \<^verbatim>\<open>\s\<close> of a JavaScript regular expression, on the code units below 256: TAB, LF, VT,
  FF, CR, SPACE and NO-BREAK SPACE.
\<close>

definition isWhitespace :: "char \<Rightarrow> bool" where
  "isWhitespace c = (let n = (of_char c :: nat) in
     n = 9 \<or> n = 10 \<or> n = 11 \<or> n = 12 \<or> n = 13 \<or> n = 32 \<or> n = 160)"

text \<open>
  \<^verbatim>\<open>String.prototype.toLowerCase\<close> on the code units below 256: the letters A to Z and
  the Latin-1 capitals U+00C0 to U+00DE (the multiplication sign U+00D7 apart) move up
  by 32; every other code unit stays.
\<close>

definition lowerChar :: "char \<Rightarrow> char" where
  "lowerChar c = (let n = (of_char c :: nat) in
     if (65 \<le> n \<and> n \<le> 90) \<or> (192 \<le> n \<and> n \<le> 222 \<and> n \<noteq> 215)
     then char_of (n + 32) else c)"

definition toLowerCase :: "string \<Rightarrow> string" where
  "toLowerCase s = map lowerChar s"

text \<open>
  \<^verbatim>\<open>s.split(/\s+/)\<close>: every maximal run of white space is one separator; a separator
  at the start or at the end leaves an empty string there, and the empty string splits
  into one empty string.
\<close>

function split_ws :: "string \<Rightarrow> string list" where
  "split_ws [] = [[]]"
| "split_ws (c # cs) =
     (if isWhitespace c then [] # split_ws (dropWhile isWhitespace cs)
      else (case split_ws cs of [] \<Rightarrow> [[c]] | t # ts \<Rightarrow> (c # t) # ts))"
  by pat_completeness auto
termination
  by (relation "measure length") (auto simp: length_dropWhile_le less_Suc_eq_le)

text \<open>\<^verbatim>\<open>text.toLowerCase().split(/\s+/).filter(Boolean)\<close>: the empty strings go.\<close>

definition tokens :: "string \<Rightarrow> string list" where
  "tokens text = filter (\<lambda>t. t \<noteq> []) (split_ws (toLowerCase text))"

subsection \<open>The hash\<close>

text \<open>
  One round of the loop of \<^verbatim>\<open>simpleHash\<close>:
  \<^verbatim>\<open>hash = ((hash << 5) - hash) + char; hash = hash & hash\<close>.
  The shift and the conjunction work on 32-bit integers; the subtraction and the
  addition between them are exact (their operands are far below \<open>2 ^ 53\<close>), and the
  conjunction reduces their result modulo \<open>2 ^ 32\<close>, so the round is the same on
  \<open>32 word\<close>.
\<close>

definition hashStep :: "32 word \<Rightarrow> char \<Rightarrow> 32 word" where
  "hashStep hash c = (let h = (push_bit 5 hash - hash) + of_char c in h AND h)"

text \<open>\<^verbatim>\<open>Math.abs\<close> of the signed value: a natural number, at most \<open>2 ^ 31\<close>.\<close>

definition simpleHash :: "string \<Rightarrow> nat" where
  "simpleHash str = nat \<bar>sint (foldl hashStep 0 str)\<bar>"

subsection \<open>embed\<close>

text \<open>
  The body of the loop over the tokens:
  \<^verbatim>\<open>const hash = this.simpleHash(token) % this.dim; vector[hash] += 1\<close>.
  With \<open>dim' = 0\<close> the remainder is \<^verbatim>\<open>NaN\<close>, which is no index: no element of the
  array changes. Otherwise the index is below \<open>dim'\<close>, the length of the array.
\<close>

definition accumulate :: "nat \<Rightarrow> number list \<Rightarrow> string \<Rightarrow> number list" where
  "accumulate dim' vector token =
     (if dim' = 0 then vector
      else (let hash = simpleHash token mod dim' in vector[hash := vector ! hash + 1]))"

text \<open>
  \<^verbatim>\<open>LocalEmbedding.embed\<close>, for an instance of dimension \<open>dim'\<close> (an array length; the
  constructor's default is 384). The promise it returns is never rejected.
\<close>

definition embed :: "nat \<Rightarrow> string \<Rightarrow> number list" where
  "embed dim' text =
     (let vector = foldl (accumulate dim') (replicate dim' 0) (tokens text);
          norm = sqrt (foldl (\<lambda>sum val. sum + val * val) 0 vector)
      in if norm > 0 then map (\<lambda>v. v / norm) vector else vector)"

text \<open>The Euclidean norm of a vector, for the statements about \<open>embed\<close>.\<close>

definition euclidean_norm :: "number list \<Rightarrow> number" where
  "euclidean_norm v = sqrt (\<Sum>x\<leftarrow>v. x * x)"

section \<open>JavaScript values and JSON text\<close>

text \<open>
  The values a producer may return: \<^verbatim>\<open>undefined\<close>, \<^verbatim>\<open>null\<close>, booleans, strings,
  arrays and plain objects (the properties in enumeration order, each key once).
  Numbers are left out: their printed form plays no part below.
\<close>

datatype jsval =
    JUndefined
  | JNull
  | JBool bool
  | JStr string
  | JArr "jsval list"
  | JObj "(string \<times> jsval) list"

definition hexDigit :: "nat \<Rightarrow> char" where
  "hexDigit n = ''0123456789abcdef'' ! (n mod 16)"

text \<open>
  The escape of one code unit inside a JSON string (QuoteJSONString of ECMA-262): the
  quotation mark and the reverse solidus get a reverse solidus, the control characters
  their short escape or \<^verbatim>\<open>\u00XX\<close>, every other code unit stands for itself.
\<close>

definition escapeChar :: "char \<Rightarrow> string" where
  "escapeChar c = (let n = (of_char c :: nat) in
     if n = 34 then [CHR 0x5C, CHR 0x22]
     else if n = 92 then [CHR 0x5C, CHR 0x5C]
     else if n = 8 then [CHR 0x5C, CHR ''b'']
     else if n = 9 then [CHR 0x5C, CHR ''t'']
     else if n = 10 then [CHR 0x5C, CHR ''n'']
     else if n = 12 then [CHR 0x5C, CHR ''f'']
     else if n = 13 then [CHR 0x5C, CHR ''r'']
     else if n < 32 then [CHR 0x5C, CHR ''u'', CHR ''0'', CHR ''0'', hexDigit (n div 16), hexDigit n]
     else [c])"

definition quote :: "string \<Rightarrow> string" where
  "quote s = [CHR 0x22] @ concat (map escapeChar s) @ [CHR 0x22]"

fun join :: "string list \<Rightarrow> string" where
  "join [] = []"
| "join [s] = s"
| "join (s # t # ts) = s @ '','' @ join (t # ts)"

text \<open>
  \<^verbatim>\<open>JSON.stringify(value)\<close> with no replacer and no indentation. \<^verbatim>\<open>undefined\<close> has no
  JSON text: the call returns \<^verbatim>\<open>undefined\<close> (here \<open>None\<close>), an array prints it as
  \<^verbatim>\<open>null\<close>, and an object drops the property.
\<close>

fun JSON_stringify :: "jsval \<Rightarrow> string option"
  and stringify_elements :: "jsval list \<Rightarrow> string list"
  and stringify_properties :: "(string \<times> jsval) list \<Rightarrow> string list" where
  "JSON_stringify JUndefined = None"
| "JSON_stringify JNull = Some ''null''"
| "JSON_stringify (JBool b) = Some (if b then ''true'' else ''false'')"
| "JSON_stringify (JStr s) = Some (quote s)"
| "JSON_stringify (JArr xs) = Some (''['' @ join (stringify_elements xs) @ '']'')"
| "JSON_stringify (JObj ps) = Some (''{'' @ join (stringify_properties ps) @ ''}'')"
| "stringify_elements [] = []"
| "stringify_elements (x # xs) =
     (case JSON_stringify x of None \<Rightarrow> ''null'' | Some s \<Rightarrow> s) # stringify_elements xs"
| "stringify_properties [] = []"
| "stringify_properties (kv # ps) =
     (case JSON_stringify (snd kv) of
        None \<Rightarrow> stringify_properties ps
      | Some s \<Rightarrow> (quote (fst kv) @ '':'' @ s) # stringify_properties ps)"

section \<open>The vector store\<close>

subsection \<open>Records of the collection\<close>

text \<open>\<^verbatim>\<open>CaptureOptions.metadata\<close> (types.ts).\<close>

record metadata =
  provider :: string
  model :: string
  userId :: "string option"
  tenantId :: "string option"

text \<open>The stored metadata \<^verbatim>\<open>{ ...metadata, prompt }\<close>.\<close>

record stored_metadata = metadata +
  prompt :: string

definition with_prompt :: "metadata \<Rightarrow> string \<Rightarrow> stored_metadata" where
  "with_prompt md p =
     \<lparr>provider = provider md, model = model md, userId = userId md, tenantId = tenantId md,
      prompt = p\<rparr>"

text \<open>
  The payload of a point: the object that \<^verbatim>\<open>store\<close> writes. Every field is optional,
  since \<^verbatim>\<open>search\<close> provides for points that lack them; a point without a payload is a
  point whose payload has no field.
\<close>

record payload =
  p_response :: "string option"
  p_metadata :: "stored_metadata option"
  p_createdAt :: "number option"
  p_expiresAt :: "number option"

record point =
  pt_id :: string
  pt_vector :: "number list"
  pt_payload :: payload

subsection \<open>Filters\<close>

text \<open>
  The two conditions the code builds: \<^verbatim>\<open>{ match: { <key>: <value> } }\<close> in \<^verbatim>\<open>capture\<close>
  and \<^verbatim>\<open>{ key: <key>, range: { lt: <bound> } }\<close> in \<^verbatim>\<open>cleanup\<close>; a filter object is its
  optional list \<^verbatim>\<open>must\<close>.
\<close>

datatype condition =
    Match string string
  | RangeLt string number

record qfilter =
  must :: "condition list option"

text \<open>The payload field at a key path, as a string and as a number.\<close>

definition string_field :: "payload \<Rightarrow> string \<Rightarrow> string option" where
  "string_field p key =
     (if key = ''response'' then p_response p
      else if key = ''metadata.provider'' then map_option provider (p_metadata p)
      else if key = ''metadata.model'' then map_option model (p_metadata p)
      else if key = ''metadata.userId'' then Option.bind (p_metadata p) userId
      else if key = ''metadata.tenantId'' then Option.bind (p_metadata p) tenantId
      else if key = ''metadata.prompt'' then map_option prompt (p_metadata p)
      else None)"

definition number_field :: "payload \<Rightarrow> string \<Rightarrow> number option" where
  "number_field p key =
     (if key = ''createdAt'' then p_createdAt p
      else if key = ''expiresAt'' then p_expiresAt p
      else None)"

text \<open>
  Modelled from the spec: the meaning of a condition in the external vector index, which
  is not part of the repository. A match condition holds for a payload whose field is
  present and equal to the value (the exact match that the scoping asks for); a range
  condition holds for a payload whose field is present and below the bound.
\<close>

fun condition_holds :: "payload \<Rightarrow> condition \<Rightarrow> bool" where
  "condition_holds p (Match key v) = (string_field p key = Some v)"
| "condition_holds p (RangeLt key bound) =
     (case number_field p key of None \<Rightarrow> False | Some x \<Rightarrow> x < bound)"

text \<open>
  Modelled from the spec: the meaning of a filter in the external vector index. A filter
  holds for a payload when every condition of \<^verbatim>\<open>must\<close> holds; a filter without
  \<^verbatim>\<open>must\<close>, the empty object, holds for every payload.
\<close>

definition filter_holds :: "qfilter \<Rightarrow> payload \<Rightarrow> bool" where
  "filter_holds f p = (case must f of None \<Rightarrow> True | Some cs \<Rightarrow> list_all (condition_holds p) cs)"

subsection \<open>The client of the index\<close>

record search_params =
  sp_vector :: "number list"
  sp_limit :: nat
  score_threshold :: number
  with_payload :: bool
  sp_filter :: "qfilter option"

record scored_point =
  sc_id :: string
  sc_score :: number
  sc_payload :: payload

definition no_payload :: payload where
  "no_payload = \<lparr>p_response = None, p_metadata = None, p_createdAt = None, p_expiresAt = None\<rparr>"

text \<open>
  The client of the external vector index (\<^verbatim>\<open>this.client\<close>, of the package
  \<^verbatim>\<open>@qdrant/js-client-rest\<close>) is not part of the repository; its three operations are
  modelled by their contract. The collection is the list of its points; \<open>sim\<close> is the
  similarity of the collection's metric; \<open>fault\<close> is the failure of the call, if the
  transport or the index fails, and a failed call leaves the collection as it was.
\<close>

text \<open>
  Modelled from the spec: \<^verbatim>\<open>client.search\<close> of the external vector index. The results are
  the points that satisfy the filter and score at least the threshold, by descending
  score, at most \<open>limit\<close> of them.
\<close>

definition client_search ::
  "(number list \<Rightarrow> number list \<Rightarrow> number) \<Rightarrow> error option \<Rightarrow> point list \<Rightarrow> search_params
     \<Rightarrow> error + scored_point list" where
  "client_search sim fault pts params =
     (case fault of
        Some e \<Rightarrow> Inl e
      | None \<Rightarrow>
          Inr (take (sp_limit params)
            (sort_key (\<lambda>r. - sc_score r)
              (filter (\<lambda>r. score_threshold params \<le> sc_score r)
                (map (\<lambda>p. \<lparr>sc_id = pt_id p,
                              sc_score = sim (sp_vector params) (pt_vector p),
                              sc_payload = (if with_payload params then pt_payload p
                                            else no_payload)\<rparr>)
                  (filter (\<lambda>p. case sp_filter params of
                                   None \<Rightarrow> True
                                 | Some f \<Rightarrow> filter_holds f (pt_payload p)) pts))))))"

text \<open>
  Modelled from the spec: \<^verbatim>\<open>client.upsert\<close> of the external vector index, for one point.
  The point replaces the point of the same id, or is added to the collection.
\<close>

definition client_upsert :: "error option \<Rightarrow> point list \<Rightarrow> point \<Rightarrow> error + point list" where
  "client_upsert fault pts pt =
     (case fault of
        Some e \<Rightarrow> Inl e
      | None \<Rightarrow>
          Inr (if pt_id pt \<in> set (map pt_id pts)
               then map (\<lambda>q. if pt_id q = pt_id pt then pt else q) pts
               else pts @ [pt]))"

text \<open>
  Modelled from the spec: \<^verbatim>\<open>client.delete\<close> of the external vector index, by a filter.
  The points that satisfy the filter go; every other point stays as it is.
\<close>

definition client_delete :: "error option \<Rightarrow> point list \<Rightarrow> qfilter \<Rightarrow> error + point list" where
  "client_delete fault pts f =
     (case fault of
        Some e \<Rightarrow> Inl e
      | None \<Rightarrow> Inr (filter (\<lambda>p. \<not> filter_holds f (pt_payload p)) pts))"

subsection \<open>QdrantCache\<close>

text \<open>\<^verbatim>\<open>CachedResult\<close> (types.ts); \<open>r_response\<close> is \<open>None\<close> where it is \<^verbatim>\<open>undefined\<close>.\<close>

record cached_result =
  r_id :: string
  r_response :: "string option"
  r_score :: number
  r_metadata :: "stored_metadata option"
  r_createdAt :: number

text \<open>
  The mapping of one result in \<^verbatim>\<open>search\<close>. \<^verbatim>\<open>result.payload?.createdAt || Date.now()\<close>
  takes the clock where the field is absent or zero; \<^verbatim>\<open>result.score || 0\<close> is the
  score; \<open>r_metadata = None\<close> stands for the empty object of \<^verbatim>\<open>metadata || {}\<close>.
\<close>

definition to_cached :: "number \<Rightarrow> scored_point \<Rightarrow> cached_result" where
  "to_cached now result =
     \<lparr>r_id = sc_id result,
      r_response = p_response (sc_payload result),
      r_score = (if sc_score result \<noteq> 0 then sc_score result else 0),
      r_metadata = p_metadata (sc_payload result),
      r_createdAt = (case p_createdAt (sc_payload result) of
                       None \<Rightarrow> now
                     | Some c \<Rightarrow> if c \<noteq> 0 then c else now)\<rparr>"

text \<open>
  \<^verbatim>\<open>QdrantCache.search(vector, limit = 1, scoreThreshold = 0.8, filter?)\<close>. An argument
  that is \<^verbatim>\<open>undefined\<close> takes the default. A filter that is given is an object, hence
  truthy, and goes into the parameters, the empty object too. A failure of the client is
  logged and thrown again. \<open>now\<close> is the reading of \<^verbatim>\<open>Date.now()\<close> in the mapping.
\<close>

definition search ::
  "(number list \<Rightarrow> number list \<Rightarrow> number) \<Rightarrow> error option \<Rightarrow> number \<Rightarrow> point list
     \<Rightarrow> number list \<Rightarrow> nat option \<Rightarrow> number option \<Rightarrow> qfilter option
     \<Rightarrow> error + cached_result list" where
  "search sim fault now pts vector limit scoreThreshold filter' =
     (let searchParams =
            \<lparr>sp_vector = vector,
             sp_limit = (case limit of None \<Rightarrow> 1 | Some l \<Rightarrow> l),
             score_threshold = (case scoreThreshold of None \<Rightarrow> 0.8 | Some t \<Rightarrow> t),
             with_payload = True,
             sp_filter = (case filter' of None \<Rightarrow> None | Some f \<Rightarrow> Some f)\<rparr>
      in case client_search sim fault pts searchParams of
           Inl e \<Rightarrow> Inl e
         | Inr results \<Rightarrow> Inr (map (to_cached now) results))"

text \<open>
  The rounding of binary64 arithmetic (IEEE 754, round to nearest, ties to even), which
  every \<^verbatim>\<open>+\<close> and \<^verbatim>\<open>*\<close> of JavaScript applies to its exact result. A binary64 number is
  an integer below \<open>2 ^ 53\<close> in magnitude times a power of two that is at least
  \<open>2 ^ (- 1074)\<close>. The exponent of \<open>x\<close> is that of the power of two at or below
  \<open>\<bar>x\<bar>\<close>, and \<open>- 1022\<close> for the subnormal numbers; the unit in the last place is 52
  binary places below it; \<open>x\<close> rounds to the nearest multiple of that unit, and to the
  even one of two nearest. Results of magnitude \<open>2 ^ 1024\<close> and more, which are
  \<^verbatim>\<open>Infinity\<close> in JavaScript, are outside \<open>number\<close>.
\<close>

definition exponent :: "number \<Rightarrow> int" where
  "exponent x = max \<lfloor>log 2 \<bar>x\<bar>\<rfloor> (- 1022)"

definition ulp :: "number \<Rightarrow> number" where
  "ulp x = 2 powr of_int (exponent x - 52)"

definition round_even :: "number \<Rightarrow> int" where
  "round_even y =
     (let f = \<lfloor>y\<rfloor>; r = y - of_int f
      in if r < 1 / 2 then f else if 1 / 2 < r then f + 1 else if even f then f else f + 1)"

definition binary64 :: "number \<Rightarrow> number" where
  "binary64 x = (if x = 0 then 0 else of_int (round_even (x / ulp x)) * ulp x)"

text \<open>
  The point that \<^verbatim>\<open>store\<close> builds: \<open>uuid\<close> is the value of \<^verbatim>\<open>uuidv4()\<close> and \<open>now\<close>
  the reading of \<^verbatim>\<open>Date.now()\<close>. \<^verbatim>\<open>if (ttl)\<close> holds for a number that is given and is
  not zero; only then the payload gets \<^verbatim>\<open>expiresAt = now + (ttl * 1000)\<close>, the product
  and the sum each rounded as binary64 arithmetic rounds them. The argument \<^verbatim>\<open>ttl\<close> is a
  binary64 number: \<open>binary64 t\<close> is \<open>t\<close> itself for such a number, and for any other
  number it is the binary64 number that the numeral denotes in JavaScript (\<^verbatim>\<open>64.001\<close>
  denotes the binary64 number nearest to it).
\<close>

definition new_point ::
  "string \<Rightarrow> number \<Rightarrow> number list \<Rightarrow> string option \<Rightarrow> stored_metadata \<Rightarrow> number option
     \<Rightarrow> point" where
  "new_point uuid now vector response' metadata' ttl =
     (let id' = uuid;
          payload = \<lparr>p_response = response', p_metadata = Some metadata',
                     p_createdAt = Some now, p_expiresAt = None\<rparr>;
          payload = (case ttl of
                       None \<Rightarrow> payload
                     | Some t \<Rightarrow>
                         if binary64 t \<noteq> 0
                         then payload\<lparr>p_expiresAt :=
                                Some (binary64 (now + binary64 (binary64 t * 1000)))\<rparr>
                         else payload)
      in \<lparr>pt_id = id', pt_vector = vector, pt_payload = payload\<rparr>)"

text \<open>
  \<^verbatim>\<open>QdrantCache.store(vector, response, metadata, ttl?)\<close>: the upsert of that point. The
  result is the id, or the failure of the upsert, with the collection after the call.
\<close>

definition store ::
  "error option \<Rightarrow> string \<Rightarrow> number \<Rightarrow> point list
     \<Rightarrow> number list \<Rightarrow> string option \<Rightarrow> stored_metadata \<Rightarrow> number option
     \<Rightarrow> (error + string) \<times> point list" where
  "store fault uuid now pts vector response' metadata' ttl =
     (case client_upsert fault pts (new_point uuid now vector response' metadata' ttl) of
        Inl e \<Rightarrow> (Inl e, pts)
      | Inr pts' \<Rightarrow> (Inr uuid, pts'))"

text \<open>
  \<^verbatim>\<open>QdrantCache.cleanup()\<close>: the delete by the range filter on \<^verbatim>\<open>expiresAt\<close>, with
  \<open>now\<close> the reading of \<^verbatim>\<open>Date.now()\<close>; a failure of the delete is caught and logged.
\<close>

definition cleanup :: "error option \<Rightarrow> number \<Rightarrow> point list \<Rightarrow> (error + unit) \<times> point list" where
  "cleanup fault now pts =
     (case client_delete fault pts \<lparr>must = Some [RangeLt ''expiresAt'' now]\<rparr> of
        Inl e \<Rightarrow> (Inr (), pts)
      | Inr pts' \<Rightarrow> (Inr (), pts'))"

section \<open>The cache decision engine\<close>

text \<open>
  The fields of \<^verbatim>\<open>this.config\<close> that \<^verbatim>\<open>capture\<close> reads. The constructor fills in
  3600 and 0.85 where the caller's object has no such key; a key that the caller sets to
  \<^verbatim>\<open>undefined\<close> stays \<^verbatim>\<open>undefined\<close> (here \<open>None\<close>).
\<close>

record config =
  collectionName :: string
  defaultTTL :: "number option"
  similarityThreshold :: "number option"

text \<open>\<^verbatim>\<open>CaptureOptions\<close> (types.ts).\<close>

record policy =
  maxAge :: "number option"
  minSimilarity :: "number option"

record capture_options =
  o_prompt :: string
  o_metadata :: metadata
  o_policy :: "policy option"

text \<open>The object that \<^verbatim>\<open>capture\<close> resolves to; a miss returns no \<^verbatim>\<open>cost_saved\<close>.\<close>

record capture_result =
  response :: jsval
  cached :: bool
  cost_saved :: "bool option"

text \<open>
  What one call of \<^verbatim>\<open>capture\<close> takes from its environment: the failure, if any, of
  the search and of the upsert, the three readings of \<^verbatim>\<open>Date.now()\<close> (in \<^verbatim>\<open>search\<close>, at
  the age check, in \<^verbatim>\<open>store\<close>) and the value of \<^verbatim>\<open>uuidv4()\<close>.
\<close>

record env =
  search_fault :: "error option"
  search_now :: number
  age_now :: number
  store_fault :: "error option"
  store_uuid :: string
  store_now :: number

text \<open>
  What one call leaves behind: the value or the failure of its promise, the collection
  after the call, and how often it called the producer \<^verbatim>\<open>llmCall\<close>.
\<close>

record outcome =
  result :: "error + capture_result"
  store_after :: "point list"
  llm_calls :: nat

text \<open>
  The filter for tenant scoping: \<^verbatim>\<open>if (metadata.tenantId)\<close> holds for a tenant that is
  given and is not the empty string; then \<^verbatim>\<open>must\<close> is the one match condition, and
  otherwise the filter stays the empty object.
\<close>

definition scoping_filter :: "metadata \<Rightarrow> qfilter" where
  "scoping_filter md =
     (case tenantId md of
        None \<Rightarrow> \<lparr>must = None\<rparr>
      | Some t \<Rightarrow> if t \<noteq> [] then \<lparr>must = Some [Match ''metadata.tenantId'' t]\<rparr>
                  else \<lparr>must = None\<rparr>)"

text \<open>\<^verbatim>\<open>policy?.minSimilarity ?? this.config.similarityThreshold\<close>.\<close>

definition resolved_threshold :: "config \<Rightarrow> capture_options \<Rightarrow> number option" where
  "resolved_threshold cfg options =
     (case Option.bind (o_policy options) minSimilarity of
        Some t \<Rightarrow> Some t
      | None \<Rightarrow> similarityThreshold cfg)"

text \<open>\<^verbatim>\<open>policy?.maxAge ?? this.config.defaultTTL\<close>, for the age check and for the TTL.\<close>

definition resolved_maxAge :: "config \<Rightarrow> capture_options \<Rightarrow> number option" where
  "resolved_maxAge cfg options =
     (case Option.bind (o_policy options) maxAge of
        Some m \<Rightarrow> Some m
      | None \<Rightarrow> defaultTTL cfg)"

text \<open>\<^verbatim>\<open>(Date.now() - cached.createdAt) / 1000\<close>: the age in seconds.\<close>

definition age_of :: "number \<Rightarrow> cached_result \<Rightarrow> number" where
  "age_of now cached' = (now - r_createdAt cached') / 1000"

text \<open>
  The test \<^verbatim>\<open>!maxAge || age < maxAge\<close>: \<^verbatim>\<open>!maxAge\<close> holds for \<^verbatim>\<open>undefined\<close> and for
  zero.
\<close>

definition is_fresh :: "number option \<Rightarrow> number \<Rightarrow> bool" where
  "is_fresh maxAge' age = (case maxAge' of None \<Rightarrow> True | Some m \<Rightarrow> m = 0 \<or> age < m)"

text \<open>
  \<^verbatim>\<open>cached.response as T\<close>: the cast changes nothing at run time, the value is the
  stored string (or \<^verbatim>\<open>undefined\<close>).
\<close>

definition as_T :: "string option \<Rightarrow> jsval" where
  "as_T r = (case r of None \<Rightarrow> JUndefined | Some s \<Rightarrow> JStr s)"

text \<open>
  The miss path of \<^verbatim>\<open>capture\<close>, from \<^verbatim>\<open>const response = await llmCall()\<close> on.
  \<open>llmCall\<close> is what the one call of the producer gives: its value or its failure.
\<close>

definition capture_miss ::
  "config \<Rightarrow> env \<Rightarrow> point list \<Rightarrow> capture_options \<Rightarrow> number list \<Rightarrow> error + jsval \<Rightarrow> outcome" where
  "capture_miss cfg ev pts options vector llmCall =
     (case llmCall of
        Inl e \<Rightarrow> \<lparr>result = Inl e, store_after = pts, llm_calls = 1\<rparr>
      | Inr response' \<Rightarrow>
          (let ttl = resolved_maxAge cfg options
           in case store (store_fault ev) (store_uuid ev) (store_now ev) pts vector
                     (JSON_stringify response')
                     (with_prompt (o_metadata options) (o_prompt options)) ttl of
                (Inl e, pts') \<Rightarrow> \<lparr>result = Inl e, store_after = pts', llm_calls = 1\<rparr>
              | (Inr _, pts') \<Rightarrow>
                  \<lparr>result = Inr \<lparr>response = response', cached = False, cost_saved = None\<rparr>,
                   store_after = pts', llm_calls = 1\<rparr>))"

text \<open>
  \<^verbatim>\<open>OptiLLM.capture(options, llmCall)\<close>. \<open>embedder\<close> is \<^verbatim>\<open>this.embedder.embed\<close> (it may
  fail, as the remote provider does), \<open>sim\<close> the similarity of the collection, \<open>pts\<close>
  the collection before the call.
\<close>

definition capture ::
  "config \<Rightarrow> (string \<Rightarrow> error + number list) \<Rightarrow> (number list \<Rightarrow> number list \<Rightarrow> number)
     \<Rightarrow> env \<Rightarrow> point list \<Rightarrow> capture_options \<Rightarrow> error + jsval \<Rightarrow> outcome" where
  "capture cfg embedder sim ev pts options llmCall =
     (case embedder (o_prompt options) of
        Inl e \<Rightarrow> \<lparr>result = Inl e, store_after = pts, llm_calls = 0\<rparr>
      | Inr vector \<Rightarrow>
          (let filter' = scoping_filter (o_metadata options);
               threshold = resolved_threshold cfg options
           in case search sim (search_fault ev) (search_now ev) pts vector (Some 1) threshold
                     (Some filter') of
                Inl e \<Rightarrow> \<lparr>result = Inl e, store_after = pts, llm_calls = 0\<rparr>
              | Inr results \<Rightarrow>
                  (case results of
                     [] \<Rightarrow> capture_miss cfg ev pts options vector llmCall
                   | cached' # _ \<Rightarrow>
                       (let maxAge' = resolved_maxAge cfg options;
                            age = age_of (age_now ev) cached'
                        in if is_fresh maxAge' age
                           then \<lparr>result = Inr \<lparr>response = as_T (r_response cached'),
                                                cached = True, cost_saved = Some True\<rparr>,
                                 store_after = pts, llm_calls = 0\<rparr>
                           else capture_miss cfg ev pts options vector llmCall))))"

text \<open>The local provider as the embedder of an engine.\<close>

definition local_embedder :: "nat \<Rightarrow> string \<Rightarrow> error + number list" where
  "local_embedder dim' text = Inr (embed dim' text)"

section \<open>Example data\<close>

text \<open>
  The inner product: the cosine similarity of vectors of norm 1, such as the local
  provider returns.
\<close>

definition dot :: "number list \<Rightarrow> number list \<Rightarrow> number" where
  "dot u v = (\<Sum>(x, y)\<leftarrow>zip u v. x * y)"

text \<open>The configuration with the constructor's defaults.\<close>

definition default_config :: config where
  "default_config =
     \<lparr>collectionName = ''llm_cache'', defaultTTL = Some 3600, similarityThreshold = Some 0.85\<rparr>"

text \<open>A request for the prompt \<^verbatim>\<open>capital\<close> of a tenant, with a \<^verbatim>\<open>maxAge\<close> of 60 seconds.\<close>

definition request :: "string option \<Rightarrow> capture_options" where
  "request tenant =
     \<lparr>o_prompt = ''capital'',
      o_metadata = \<lparr>provider = ''openai'', model = ''gpt-4o-mini'', userId = None,
                    tenantId = tenant\<rparr>,
      o_policy = Some \<lparr>maxAge = Some 60, minSimilarity = None\<rparr>\<rparr>"

text \<open>An environment without failures, with one reading \<open>now\<close> of the clock.\<close>

definition calm :: "number \<Rightarrow> string \<Rightarrow> env" where
  "calm now uuid =
     \<lparr>search_fault = None, search_now = now, age_now = now,
      store_fault = None, store_uuid = uuid, store_now = now\<rparr>"

text \<open>
  The record that a miss of that request at time 1000 writes when the producer returns
  the string \<^verbatim>\<open>Paris\<close>.
\<close>

definition paris_point :: "string option \<Rightarrow> point" where
  "paris_point tenant =
     new_point ''id1'' 1000 [1, 0, 0, 0] (JSON_stringify (JStr ''Paris''))
       (with_prompt (o_metadata (request tenant)) ''capital'') (Some 60)"

section \<open>Properties of the local embedding\<close>

lemma length_accumulate: "length (accumulate dim' vector token) = length vector"
  by (simp add: accumulate_def Let_def)

lemma length_foldl_accumulate:
  "length (foldl (accumulate dim') vector ts) = length vector"
  by (induction ts arbitrary: vector) (simp_all add: length_accumulate)

lemma foldl_sq: "foldl (\<lambda>sum val. sum + val * val) a xs = a + (\<Sum>x\<leftarrow>xs. x * (x::real))"
  by (induction xs arbitrary: a) simp_all

lemma embed_no_tokens: "tokens text = [] \<Longrightarrow> embed dim' text = replicate dim' 0"
  by (simp add: embed_def Let_def foldl_sq)

lemma accumulate_nonneg:
  assumes "length vector = dim'" and "\<forall>x\<in>set vector. 0 \<le> x"
  shows "\<forall>x\<in>set (accumulate dim' vector token). 0 \<le> x"
proof (cases "dim' = 0")
  case True
  with assms show ?thesis by (simp add: accumulate_def)
next
  case False
  let ?h = "simpleHash token mod dim'"
  have h: "?h < length vector" using False assms(1) by simp
  then have "0 \<le> vector ! ?h" using assms(2) by simp
  then have "\<forall>x\<in>insert (vector ! ?h + 1) (set vector). 0 \<le> x"
    using assms(2) by simp
  moreover have "set (vector[?h := vector ! ?h + 1]) \<subseteq> insert (vector ! ?h + 1) (set vector)"
    by (rule set_update_subset_insert)
  ultimately show ?thesis
    using False by (auto simp: accumulate_def Let_def)
qed

lemma sum_list_bump:
  "i < length xs \<Longrightarrow> sum_list (xs[i := xs ! i + 1]) = sum_list xs + (1::real)"
proof (induction xs arbitrary: i)
  case Nil
  then show ?case by simp
next
  case (Cons x xs)
  then show ?case by (cases i) simp_all
qed

lemma accumulate_sum:
  assumes "length vector = dim'" and "0 < dim'"
  shows "sum_list (accumulate dim' vector token) = sum_list vector + 1"
proof -
  have "simpleHash token mod dim' < length vector" using assms by simp
  then show ?thesis
    using assms(2) by (simp add: accumulate_def Let_def sum_list_bump)
qed

lemma foldl_accumulate_inv:
  "length vector = dim' \<Longrightarrow> 0 < dim' \<Longrightarrow> \<forall>x\<in>set vector. 0 \<le> x \<Longrightarrow>
   (\<forall>x\<in>set (foldl (accumulate dim') vector ts). 0 \<le> x) \<and>
   sum_list (foldl (accumulate dim') vector ts) = sum_list vector + real (length ts)"
proof (induction ts arbitrary: vector)
  case Nil
  then show ?case by simp
next
  case (Cons t ts)
  have "length (accumulate dim' vector t) = dim'"
    using Cons.prems(1) by (simp add: length_accumulate)
  moreover have "\<forall>x\<in>set (accumulate dim' vector t). 0 \<le> x"
    using Cons.prems(1,3) by (rule accumulate_nonneg)
  ultimately show ?case
    using Cons.IH[of "accumulate dim' vector t"] Cons.prems accumulate_sum[of vector dim' t]
    by simp
qed

lemma sum_sq_nonneg: "0 \<le> (\<Sum>x\<leftarrow>v. x * (x::real))"
  by (induction v) simp_all

lemma sum_sq_pos:
  "\<forall>x\<in>set v. (0::real) \<le> x \<Longrightarrow> 0 < sum_list v \<Longrightarrow> 0 < (\<Sum>x\<leftarrow>v. x * x)"
proof (induction v)
  case Nil
  then show ?case by simp
next
  case (Cons a v)
  show ?case
  proof (cases "0 < a")
    case True
    then have "0 < a * a" by simp
    then show ?thesis using sum_sq_nonneg[of v] by simp
  next
    case False
    with Cons.prems have "a = 0" by simp
    with Cons show ?thesis by simp
  qed
qed

lemma sum_list_div: "(\<Sum>x\<leftarrow>v. f x / c) = (\<Sum>x\<leftarrow>v. f x) / (c::real)"
  by (induction v) (simp_all add: add_divide_distrib)

lemma norm_normalised:
  assumes "0 < (\<Sum>x\<leftarrow>v. x * (x::real))"
  shows "euclidean_norm (map (\<lambda>x. x / sqrt (\<Sum>x\<leftarrow>v. x * x)) v) = 1"
proof -
  let ?s = "\<Sum>x\<leftarrow>v. x * x"
  have "(\<Sum>x\<leftarrow>map (\<lambda>x. x / sqrt ?s) v. x * x) = (\<Sum>x\<leftarrow>v. (x * x) / ?s)"
    using assms by (simp add: comp_def)
  also have "\<dots> = ?s / ?s"
    by (rule sum_list_div)
  finally show ?thesis using assms by (simp add: euclidean_norm_def)
qed

lemma embed_unit:
  assumes "tokens text \<noteq> []" and "0 < dim'"
  shows "euclidean_norm (embed dim' text) = 1"
proof -
  let ?v = "foldl (accumulate dim') (replicate dim' 0) (tokens text)"
  have inv: "(\<forall>x\<in>set ?v. 0 \<le> x) \<and> sum_list ?v = sum_list (replicate dim' 0) + real (length (tokens text))"
    using assms(2) by (intro foldl_accumulate_inv) simp_all
  have "sum_list (replicate dim' (0::real)) = 0" by (induction dim') simp_all
  with inv assms(1) have "0 < sum_list ?v" by simp
  with inv have pos: "0 < (\<Sum>x\<leftarrow>?v. x * x)" by (intro sum_sq_pos) simp_all
  then have "embed dim' text = map (\<lambda>x. x / sqrt (\<Sum>x\<leftarrow>?v. x * x)) ?v"
    by (simp add: embed_def Let_def foldl_sq)
  then show ?thesis using norm_normalised[OF pos] by simp
qed

lemma split_ws_nonempty: "split_ws s \<noteq> []"
  by (induction s rule: split_ws.induct) (auto split: list.splits)

lemma split_ws_all_empty:
  "(\<forall>t\<in>set (split_ws s). t = []) \<longleftrightarrow> (\<forall>c\<in>set s. isWhitespace c)"
proof (induction s rule: split_ws.induct)
  case 1
  then show ?case by simp
next
  case (2 c cs)
  show ?case
  proof (cases "isWhitespace c")
    case True
    have "(\<forall>c\<in>set (dropWhile isWhitespace cs). isWhitespace c) \<longleftrightarrow> (\<forall>c\<in>set cs. isWhitespace c)"
      by (induction cs) simp_all
    with True 2 show ?thesis by simp
  next
    case False
    then show ?thesis using split_ws_nonempty[of cs] by (auto split: list.splits)
  qed
qed

lemma isWhitespace_lowerChar: "isWhitespace (lowerChar c) = isWhitespace c"
  by (auto simp: isWhitespace_def lowerChar_def Let_def)

lemma tokens_Nil_iff: "tokens text = [] \<longleftrightarrow> (\<forall>c\<in>set text. isWhitespace c)"
  by (simp add: tokens_def filter_empty_conv split_ws_all_empty toLowerCase_def isWhitespace_lowerChar)

text \<open>
  \<open>embed\<close> in terms of the Euclidean norm of its accumulator (the array after the loop
  over the tokens).
\<close>

lemma embed_by_norm:
  "embed dim' text =
     (let acc = foldl (accumulate dim') (replicate dim' 0) (tokens text)
      in if euclidean_norm acc \<noteq> 0 then map (\<lambda>v. v / euclidean_norm acc) acc else acc)"
proof -
  have "0 \<le> euclidean_norm v" for v
    by (simp add: euclidean_norm_def sum_sq_nonneg)
  then have "(0 < euclidean_norm v) = (euclidean_norm v \<noteq> 0)" for v
    by (simp add: less_le)
  then show ?thesis
    by (simp add: embed_def Let_def foldl_sq euclidean_norm_def)
qed

section \<open>Properties of the filters and of the search\<close>

text \<open>
  The filter of a tenant that is given and not empty holds exactly for the payloads of
  that tenant; the empty filter holds for every payload.
\<close>

lemma filter_holds_scoping:
  assumes "tenantId md = Some B" and "B \<noteq> []"
  shows "filter_holds (scoping_filter md) pl = (string_field pl ''metadata.tenantId'' = Some B)"
  using assms by (simp add: scoping_filter_def filter_holds_def)

lemma filter_holds_unscoped: "filter_holds \<lparr>must = None\<rparr> pl"
  by (simp add: filter_holds_def)

text \<open>
  Every result of \<open>search\<close> comes from a point of the collection that satisfies the
  filter and scores at least the threshold.
\<close>

lemma search_Inr_D:
  assumes "search sim fault now pts v l t fo = Inr results" and "r \<in> set results"
  shows "\<exists>p\<in>set pts.
           (case fo of None \<Rightarrow> True | Some f \<Rightarrow> filter_holds f (pt_payload p)) \<and>
           (case t of None \<Rightarrow> 0.8 | Some t' \<Rightarrow> t') \<le> sim v (pt_vector p) \<and>
           r = to_cached now
                 \<lparr>sc_id = pt_id p, sc_score = sim v (pt_vector p), sc_payload = pt_payload p\<rparr>"
proof -
  from assms(1) have nofault: "fault = None"
    by (cases fault) (simp_all add: search_def client_search_def)
  let ?keep = "\<lambda>p. case fo of None \<Rightarrow> True | Some f \<Rightarrow> filter_holds f (pt_payload p)"
  let ?mk = "\<lambda>p. \<lparr>sc_id = pt_id p, sc_score = sim v (pt_vector p), sc_payload = pt_payload p\<rparr>"
  let ?thr = "case t of None \<Rightarrow> 0.8 | Some t' \<Rightarrow> t'"
  let ?cands = "filter (\<lambda>r. ?thr \<le> sc_score r) (map ?mk (filter ?keep pts))"
  have res: "results = map (to_cached now)
               (take (case l of None \<Rightarrow> 1 | Some n \<Rightarrow> n) (sort_key (\<lambda>r. - sc_score r) ?cands))"
    using assms(1) nofault
    by (cases fo) (simp_all add: search_def client_search_def)
  with assms(2) obtain s where s: "s \<in> set ?cands" and r: "r = to_cached now s"
    by (auto dest: in_set_takeD)
  from s obtain p where "p \<in> set pts" "?keep p" "s = ?mk p" "?thr \<le> sim v (pt_vector p)"
    by auto
  with r show ?thesis by blast
qed

lemma r_score_to_cached: "r_score (to_cached now s) = sc_score s"
  by (simp add: to_cached_def)

lemma search_empty:
  "search sim None now [] vector limit thr f = Inr []"
  by (simp add: search_def client_search_def)

lemma search_single:
  assumes "(case thr of None \<Rightarrow> 0.8 | Some t \<Rightarrow> t) \<le> sim v (pt_vector p)"
    and "case fo of None \<Rightarrow> True | Some f \<Rightarrow> filter_holds f (pt_payload p)"
  shows "search sim None now [p] v (Some 1) thr fo =
           Inr [to_cached now \<lparr>sc_id = pt_id p, sc_score = sim v (pt_vector p),
                                sc_payload = pt_payload p\<rparr>]"
  using assms by (cases fo) (simp_all add: search_def client_search_def)

lemma search_append_unmatched:
  assumes "\<not> filter_holds f (pt_payload w)"
  shows "search sim fault now (pts @ [w]) v l t (Some f) = search sim fault now pts v l t (Some f)"
  using assms by (cases fault) (simp_all add: search_def client_search_def)

lemma search_no_filter:
  "search sim fault now pts v l t (Some \<lparr>must = None\<rparr>) = search sim fault now pts v l t None"
  by (cases fault) (simp_all add: search_def client_search_def filter_holds_unscoped)

section \<open>Properties of the binary64 rounding\<close>

text \<open>
  A number that is an integer below \<open>2 ^ 53\<close> in magnitude times a power of two at
  or above \<open>2 ^ (- 1074)\<close> is a binary64 number: it rounds to itself. The rounding of a
  number at or above an integer from 0 to \<open>2 ^ 53\<close> is at or above that integer.
\<close>

lemma round_even_of_int: "round_even (of_int k) = k"
  by (simp add: round_even_def)


lemma ulp_pos: "0 < ulp x"
  by (simp add: ulp_def)

lemma exponent_eqI:
  assumes "2 powr of_int e \<le> \<bar>x\<bar>" and "\<bar>x\<bar> < 2 powr (of_int e + 1)" and "- 1022 \<le> e"
  shows "exponent x = e"
proof -
  have pos: "0 < \<bar>x\<bar>" using assms(1) by (smt (verit) powr_gt_zero)
  have "\<lfloor>log 2 \<bar>x\<bar>\<rfloor> = e"
    using assms(1,2) floor_log_eq_powr_iff[of "\<bar>x\<bar>" 2 e] pos by simp
  then show ?thesis using assms(3) by (simp add: exponent_def)
qed


lemma binary64_exact:
  assumes x: "x = of_int m * 2 powr of_int q" and m: "\<bar>m\<bar> < 2 ^ 53" and q: "- 1074 \<le> q"
  shows "binary64 x = x"
proof (cases "x = 0")
  case True
  then show ?thesis by (simp add: binary64_def)
next
  case False
  define e where "e = exponent x"
  have pos: "0 < \<bar>x\<bar>" using False by simp
  have "\<bar>x\<bar> = of_int \<bar>m\<bar> * 2 powr of_int q"
    by (simp add: x abs_mult)
  also have "\<dots> < 2 ^ 53 * 2 powr of_int q"
  proof -
    have "(of_int \<bar>m\<bar> :: real) < of_int (2 ^ 53)" using m by (simp only: of_int_less_iff)
    then show ?thesis by simp
  qed
  also have "\<dots> = 2 powr of_int (q + 53)"
    by (simp add: powr_add powr_realpow[symmetric] mult.commute)
  finally have "\<bar>x\<bar> < 2 powr of_int (q + 53)" .
  then have "log 2 \<bar>x\<bar> < of_int (q + 53)"
    using pos by (simp add: log_less_iff)
  then have "\<lfloor>log 2 \<bar>x\<bar>\<rfloor> < q + 53" by (simp add: floor_less_iff)
  then have le: "e \<le> q + 52" using q by (simp add: e_def exponent_def)
  define d where "d = nat (q + 52 - e)"
  have d: "of_int (q + 52 - e) = real d" using le by (simp add: d_def)
  have "x / ulp x = of_int m * 2 powr (of_int q - of_int (e - 52))"
    by (simp add: x ulp_def e_def powr_diff)
  also have "of_int q - of_int (e - 52) = (of_int (q + 52 - e) :: real)" by simp
  also have "2 powr (of_int (q + 52 - e) :: real) = 2 ^ d"
    by (simp only: d) (simp add: powr_realpow)
  finally have "x / ulp x = of_int (m * 2 ^ d)" by simp
  then have "round_even (x / ulp x) = m * 2 ^ d" by (simp only: round_even_of_int)
  then have "binary64 x = of_int (m * 2 ^ d) * ulp x"
    using False by (simp add: binary64_def)
  also have "\<dots> = (x / ulp x) * ulp x"
    using \<open>x / ulp x = of_int (m * 2 ^ d)\<close> by simp
  also have "\<dots> = x" using ulp_pos[of x] by simp
  finally show ?thesis .
qed

lemma binary64_of_int:
  assumes "\<bar>m\<bar> < 2 ^ 53"
  shows "binary64 (of_int m) = of_int m"
  using binary64_exact[of "of_int m" m 0] assms by simp



lemma binary64_eval:
  assumes "2 powr of_int e \<le> \<bar>x\<bar>" and "\<bar>x\<bar> < 2 powr (of_int e + 1)" and "- 1022 \<le> e"
  shows "binary64 x = of_int (round_even (x / 2 powr of_int (e - 52))) * 2 powr of_int (e - 52)"
proof -
  have "exponent x = e" using assms by (rule exponent_eqI)
  moreover have "x \<noteq> 0" using assms(1) by (smt (verit) powr_gt_zero)
  ultimately show ?thesis by (simp add: binary64_def ulp_def)
qed



lemma round_even_up:
  assumes "of_int f + 1 / 2 < y" and "y < of_int f + 1"
  shows "round_even y = f + 1"
proof -
  have "\<lfloor>y\<rfloor> = f" using assms by (simp add: floor_eq_iff)
  then show ?thesis using assms by (simp add: round_even_def Let_def)
qed

lemma round_even_down:
  assumes "of_int f \<le> y" and "y < of_int f + 1 / 2"
  shows "round_even y = f"
proof -
  have "\<lfloor>y\<rfloor> = f" using assms by (simp add: floor_eq_iff)
  then show ?thesis using assms by (simp add: round_even_def Let_def)
qed

lemma literal_64_001: "binary64 (64001 / 1000) = 4503669996114674 / 2 ^ 46"
proof -
  have "binary64 (64001 / 1000) =
        of_int (round_even ((64001 / 1000) / 2 powr of_int (6 - 52))) * 2 powr of_int (6 - 52)"
    by (rule binary64_eval) simp_all
  also have "(64001 / 1000) / 2 powr of_int (6 - 52) = (562958749514334208 / 125 :: real)"
    by (simp add: powr_minus_divide)
  also have "round_even (562958749514334208 / 125) = 4503669996114673 + 1"
    by (rule round_even_up) simp_all
  finally show ?thesis by (simp add: powr_minus_divide)
qed

lemma product_64_001: "binary64 (4503669996114674 / 2 ^ 46 * 1000) = 64001 + 1 / 2 ^ 37"
proof -
  have "binary64 (4503669996114674 / 2 ^ 46 * 1000) =
        of_int (round_even ((4503669996114674 / 2 ^ 46 * 1000) / 2 powr of_int (15 - 52))) *
          2 powr of_int (15 - 52)"
    by (rule binary64_eval) simp_all
  also have "(4503669996114674 / 2 ^ 46 * 1000) / 2 powr of_int (15 - 52) =
             (8796230461161472 + 21 / 32 :: real)"
    by (simp add: powr_minus_divide)
  also have "round_even (8796230461161472 + 21 / 32) = 8796230461161472 + 1"
    by (rule round_even_up) simp_all
  finally show ?thesis by (simp add: powr_minus_divide)
qed

lemma sum_64_001: "binary64 (1000 + (64001 + 1 / 2 ^ 37)) = 65001 + 1 / 2 ^ 37"
proof -
  have "binary64 (1000 + (64001 + 1 / 2 ^ 37)) = 1000 + (64001 + 1 / 2 ^ 37)"
    by (rule binary64_exact[where m = 8933669414633473 and q = "- 37"])
       (simp_all add: powr_minus_divide)
  then show ?thesis by simp
qed

lemma binary64_numeral [simp]:
  "numeral k < (2::int) ^ 53 \<Longrightarrow> binary64 (numeral k) = numeral k"
  using binary64_of_int[of "numeral k"] by simp

lemma binary64_neg_numeral [simp]:
  "numeral k < (2::int) ^ 53 \<Longrightarrow> binary64 (- numeral k) = - numeral k"
  using binary64_of_int[of "- numeral k"] by simp

lemma binary64_0 [simp]: "binary64 0 = 0"
  by (simp add: binary64_def)

lemma binary64_1 [simp]: "binary64 1 = 1"
  using binary64_of_int[of 1] by simp

lemma binary64_neg_1 [simp]: "binary64 (- 1) = - 1"
  using binary64_of_int[of "- 1"] by simp


section \<open>Properties of store and cleanup\<close>

lemma store_ok:
  "store None uuid now pts vector r md ttl =
     (Inr uuid,
      if uuid \<in> set (map pt_id pts)
      then map (\<lambda>q. if pt_id q = uuid then new_point uuid now vector r md ttl else q) pts
      else pts @ [new_point uuid now vector r md ttl])"
  by (simp add: store_def client_upsert_def new_point_def Let_def split: option.splits)

lemma store_fails: "store (Some e) uuid now pts vector r md ttl = (Inl e, pts)"
  by (simp add: store_def client_upsert_def)

lemma tenant_new_point:
  "string_field (pt_payload (new_point uuid now v r (with_prompt md p) ttl)) ''metadata.tenantId''
     = tenantId md"
  by (simp add: new_point_def with_prompt_def string_field_def Let_def split: option.splits)


lemma expiresAt_new_point:
  "p_expiresAt (pt_payload (new_point uuid now vector r md ttl)) =
     (case ttl of
        None \<Rightarrow> None
      | Some t \<Rightarrow> if binary64 t = 0 then None
                  else Some (binary64 (now + binary64 (binary64 t * 1000))))"
  by (simp add: new_point_def Let_def split: option.splits)




text \<open>
  A TTL of \<^verbatim>\<open>64.001\<close> at the time 1000: the numeral denotes the binary64 number nearest
  to it, and the expiry time is \<open>65001 + 2 ^ (- 37)\<close>, which JavaScript prints as
  \<^verbatim>\<open>65001.00000000001\<close>.
\<close>

lemma expiresAt_64_001:
  "p_expiresAt (pt_payload (new_point uuid 1000 vector r md (Some (64001 / 1000))))
     = Some (65001 + 1 / 2 ^ 37)"
proof -
  have "binary64 (1000 + binary64 (binary64 (64001 / 1000) * 1000)) = 65001 + 1 / 2 ^ 37"
    by (simp only: literal_64_001 product_64_001 sum_64_001)
  moreover have "binary64 (64001 / 1000) \<noteq> 0"
    by (simp only: literal_64_001) simp
  ultimately show ?thesis
    by (simp only: expiresAt_new_point option.case if_False)
qed


lemma cleanup_ok:
  "cleanup None now pts =
     (Inr (), filter (\<lambda>p. case p_expiresAt (pt_payload p) of None \<Rightarrow> True | Some x \<Rightarrow> now \<le> x) pts)"
proof -
  have "(\<not> filter_holds \<lparr>must = Some [RangeLt ''expiresAt'' now]\<rparr> pl) =
        (case p_expiresAt pl of None \<Rightarrow> True | Some x \<Rightarrow> now \<le> x)" for pl
    by (simp add: filter_holds_def number_field_def not_less split: option.splits)
  then show ?thesis
    by (simp add: cleanup_def client_delete_def)
qed

lemma cleanup_fails: "cleanup (Some e) now pts = (Inr (), pts)"
  by (simp add: cleanup_def client_delete_def)

section \<open>Properties of capture\<close>

lemma capture_miss_calls: "llm_calls (capture_miss cfg ev pts options vector llmCall) = 1"
  by (simp add: capture_miss_def Let_def split: sum.splits prod.splits)

lemma capture_calls_le: "llm_calls (capture cfg embedder sim ev pts options llmCall) \<le> 1"
  by (simp add: capture_def Let_def capture_miss_calls split: sum.splits list.splits)

lemma capture_fresh_candidate:
  assumes "embedder (o_prompt options) = Inr vector"
    and "search sim (search_fault ev) (search_now ev) pts vector (Some 1)
           (resolved_threshold cfg options) (Some (scoping_filter (o_metadata options)))
         = Inr (candidate # rest)"
    and "is_fresh (resolved_maxAge cfg options) (age_of (age_now ev) candidate)"
  shows "capture cfg embedder sim ev pts options llmCall =
           \<lparr>result = Inr \<lparr>response = as_T (r_response candidate), cached = True,
                           cost_saved = Some True\<rparr>,
            store_after = pts, llm_calls = 0\<rparr>"
  using assms by (simp add: capture_def Let_def)

text \<open>
  The value of a capture call and the number of its producer calls depend on the
  collection through the search only.
\<close>

lemma capture_miss_result:
  "result (capture_miss cfg ev pts options v llmCall) =
   result (capture_miss cfg ev pts' options v llmCall)"
  by (simp add: capture_miss_def store_def client_upsert_def Let_def
      split: sum.splits option.splits)

lemma capture_result_cong:
  assumes "\<And>v. search sim (search_fault ev) (search_now ev) pts v (Some 1)
                  (resolved_threshold cfg options) (Some (scoping_filter (o_metadata options)))
               = search sim (search_fault ev) (search_now ev) pts' v (Some 1)
                  (resolved_threshold cfg options) (Some (scoping_filter (o_metadata options)))"
  shows "result (capture cfg embedder sim ev pts options llmCall) =
         result (capture cfg embedder sim ev pts' options llmCall) \<and>
         llm_calls (capture cfg embedder sim ev pts options llmCall) =
         llm_calls (capture cfg embedder sim ev pts' options llmCall)"
proof (cases "embedder (o_prompt options)")
  case (Inl e)
  then show ?thesis by (simp add: capture_def)
next
  case (Inr v)
  define S where "S = search sim (search_fault ev) (search_now ev) pts v (Some 1)
                  (resolved_threshold cfg options) (Some (scoping_filter (o_metadata options)))"
  have S': "search sim (search_fault ev) (search_now ev) pts' v (Some 1)
                  (resolved_threshold cfg options) (Some (scoping_filter (o_metadata options))) = S"
    using assms[of v] by (simp add: S_def)
  have "result (capture cfg embedder sim ev pts options llmCall) =
        result (capture cfg embedder sim ev pts' options llmCall)"
    using capture_miss_result[of cfg ev pts options v llmCall pts'] S_def[symmetric] S'
    by (cases S) (simp_all add: capture_def Inr Let_def split: list.splits)
  moreover have "llm_calls (capture cfg embedder sim ev pts options llmCall) =
        llm_calls (capture cfg embedder sim ev pts' options llmCall)"
    using S_def[symmetric] S'
    by (cases S) (simp_all add: capture_def Inr Let_def capture_miss_calls split: list.splits)
  ultimately show ?thesis by simp
qed

text \<open>
  A capture call with a new id leaves the collection as it was or adds one record,
  which carries the metadata of the request.
\<close>

lemma capture_store_after:
  assumes "store_uuid ev \<notin> set (map pt_id pts)"
  shows "store_after (capture cfg embedder sim ev pts options llmCall) = pts \<or>
         (\<exists>v r. store_after (capture cfg embedder sim ev pts options llmCall) =
            pts @ [new_point (store_uuid ev) (store_now ev) v r
                     (with_prompt (o_metadata options) (o_prompt options))
                     (resolved_maxAge cfg options)])"
proof -
  have miss: "store_after (capture_miss cfg ev pts options v llmCall) = pts \<or>
         (\<exists>r. store_after (capture_miss cfg ev pts options v llmCall) =
            pts @ [new_point (store_uuid ev) (store_now ev) v r
                     (with_prompt (o_metadata options) (o_prompt options))
                     (resolved_maxAge cfg options)])" for v
    using assms
    by (cases "store_fault ev")
       (auto simp: capture_miss_def Let_def store_ok store_fails split: sum.splits)
  show ?thesis
  proof (cases "embedder (o_prompt options)")
    case (Inl e)
    then show ?thesis by (simp add: capture_def)
  next
    case (Inr v)
    show ?thesis
      using miss[of v]
      by (auto simp: capture_def Inr Let_def split: sum.splits list.splits)
  qed
qed

text \<open>
  The JSON text of a string is longer than the string, so the stored response, read
  back as it is, equals the value it was made from only for \<^verbatim>\<open>undefined\<close>.
\<close>

lemma length_escapeChar: "1 \<le> length (escapeChar c)"
  by (simp add: escapeChar_def Let_def)

lemma length_quote: "length s + 2 \<le> length (quote s)"
proof -
  have "length s \<le> length (concat (map escapeChar s))"
  proof (induction s)
    case Nil
    then show ?case by simp
  next
    case (Cons c s)
    then show ?case using length_escapeChar[of c] by simp
  qed
  then show ?thesis by (simp add: quote_def)
qed

lemma stored_response_differs:
  "as_T (JSON_stringify p) = p \<longleftrightarrow> p = JUndefined"
proof (cases p)
  case (JStr s)
  have "quote s \<noteq> s" using length_quote[of s] by auto
  with JStr show ?thesis by (simp add: as_T_def)
qed (simp_all add: as_T_def)

section \<open>Evaluation of the examples\<close>

lemma hashStep_eq: "hashStep h c = 31 * h + of_char c"
  by (simp add: hashStep_def Let_def push_bit_eq_mult)

lemma tokens_capital: "tokens ''capital'' = [''capital'']"
  by code_simp

lemma embed_capital: "embed 4 ''capital'' = [1, 0, 0, 0]"
proof -
  have "simpleHash ''capital'' = 552255848"
    by (simp add: simpleHash_def hashStep_eq)
  then have "simpleHash ''capital'' mod 4 = 0" by simp
  moreover have "replicate 4 (0::real) = [0, 0, 0, 0]" by (simp add: numeral_eq_Suc)
  ultimately show ?thesis
    by (simp add: embed_def tokens_capital Let_def accumulate_def)
qed

lemmas request_simps =
  request_def calm_def default_config_def resolved_threshold_def resolved_maxAge_def
  scoping_filter_def local_embedder_def embed_capital

lemmas store_simps =
  search_def client_search_def client_upsert_def store_def new_point_def with_prompt_def
  to_cached_def filter_holds_def string_field_def dot_def age_of_def is_fresh_def
  paris_point_def

lemma expiresAt_paris: "p_expiresAt (pt_payload (paris_point tenant)) = Some 61000"
  by (simp add: paris_point_def new_point_def)

lemma search_paris:
  "search dot None now [paris_point tenant] [1, 0, 0, 0] (Some 1) (Some 0.85)
     (Some (scoping_filter (o_metadata (request tenant))))
   = Inr [\<lparr>r_id = ''id1'', r_response = Some (quote ''Paris''), r_score = 1,
            r_metadata = Some (with_prompt (o_metadata (request tenant)) ''capital''),
            r_createdAt = 1000\<rparr>]"
  by (cases tenant) (simp_all add: request_simps store_simps)

lemma search_paris_any:
  assumes "filter_holds f (pt_payload (paris_point tenant))"
  shows "search dot None now [paris_point tenant] [1, 0, 0, 0] (Some 1) (Some 0.85) (Some f)
   = Inr [\<lparr>r_id = ''id1'', r_response = Some (quote ''Paris''), r_score = 1,
            r_metadata = Some (with_prompt (o_metadata (request tenant)) ''capital''),
            r_createdAt = 1000\<rparr>]"
  using assms
  by (simp add: search_def client_search_def to_cached_def dot_def)
     (simp add: paris_point_def new_point_def)

lemma capture_on_empty:
  "capture default_config (local_embedder 4) dot (calm now uuid) [] (request tenant) (Inr p) =
     \<lparr>result = Inr \<lparr>response = p, cached = False, cost_saved = None\<rparr>,
      store_after = [new_point uuid now [1, 0, 0, 0] (JSON_stringify p)
                       (with_prompt (o_metadata (request tenant)) ''capital'') (Some 60)],
      llm_calls = 1\<rparr>"
proof -
  have "capture default_config (local_embedder 4) dot (calm now uuid) [] (request tenant) (Inr p) =
        capture_miss default_config (calm now uuid) [] (request tenant) [1, 0, 0, 0] (Inr p)"
    by (simp add: capture_def Let_def local_embedder_def embed_capital request_def calm_def
        search_empty)
  also have "\<dots> = \<lparr>result = Inr \<lparr>response = p, cached = False, cost_saved = None\<rparr>,
      store_after = [new_point uuid now [1, 0, 0, 0] (JSON_stringify p)
                       (with_prompt (o_metadata (request tenant)) ''capital'') (Some 60)],
      llm_calls = 1\<rparr>"
    by (simp add: capture_miss_def Let_def store_ok calm_def request_def resolved_maxAge_def)
  finally show ?thesis .
qed

lemma first_capture:
  "capture default_config (local_embedder 4) dot (calm 1000 ''id1'') [] (request tenant)
     (Inr (JStr ''Paris'')) =
     \<lparr>result = Inr \<lparr>response = JStr ''Paris'', cached = False, cost_saved = None\<rparr>,
      store_after = [paris_point tenant], llm_calls = 1\<rparr>"
  by (simp add: capture_on_empty paris_point_def)

lemma second_capture:
  assumes "filter_holds (scoping_filter (o_metadata (request tenant')))
             (pt_payload (paris_point tenant))"
  shows "capture default_config (local_embedder 4) dot (calm 5000 ''id2'') [paris_point tenant]
     (request tenant') llmCall =
     \<lparr>result = Inr \<lparr>response = JStr (quote ''Paris''), cached = True, cost_saved = Some True\<rparr>,
      store_after = [paris_point tenant], llm_calls = 0\<rparr>"
proof -
  let ?cand = "\<lparr>r_id = ''id1'', r_response = Some (quote ''Paris''), r_score = 1,
            r_metadata = Some (with_prompt (o_metadata (request tenant)) ''capital''),
            r_createdAt = 1000\<rparr>"
  have e: "local_embedder 4 (o_prompt (request tenant')) = Inr [1, 0, 0, 0]"
    by (simp add: local_embedder_def embed_capital request_def)
  have s: "search dot (search_fault (calm 5000 ''id2'')) (search_now (calm 5000 ''id2''))
             [paris_point tenant] [1, 0, 0, 0] (Some 1)
             (resolved_threshold default_config (request tenant'))
             (Some (scoping_filter (o_metadata (request tenant')))) = Inr (?cand # [])"
    using search_paris_any[OF assms, of 5000]
    by (simp add: request_def calm_def default_config_def resolved_threshold_def)
  have f: "is_fresh (resolved_maxAge default_config (request tenant'))
             (age_of (age_now (calm 5000 ''id2'')) ?cand)"
    by (simp add: is_fresh_def resolved_maxAge_def request_def calm_def age_of_def)
  show ?thesis
    using capture_fresh_candidate[where embedder = "local_embedder 4"
        and options = "request tenant'" and ev = "calm 5000 ''id2''" and cfg = default_config
        and llmCall = llmCall, OF e s f]
    by (simp add: as_T_def)
qed

section \<open>The claims\<close>

text \<open>
  C1. When the scoped search of a capture call returns a candidate (whose similarity is
  then at or above the resolved threshold), and the resolved \<^verbatim>\<open>maxAge\<close> is unset or zero,
  or the age of the candidate is strictly below it, the call returns the cached payload
  with \<^verbatim>\<open>cached = true\<close> and \<^verbatim>\<open>cost_saved = true\<close>, does not call the producer and
  leaves the collection as it was.
\<close>

theorem capture_hit:
  assumes "embedder (o_prompt options) = Inr vector"
    and "search sim (search_fault ev) (search_now ev) pts vector (Some 1)
           (resolved_threshold cfg options) (Some (scoping_filter (o_metadata options)))
         = Inr (candidate # rest)"
    and "resolved_maxAge cfg options = None \<or> resolved_maxAge cfg options = Some 0 \<or>
         (\<exists>m. resolved_maxAge cfg options = Some m \<and> age_of (age_now ev) candidate < m)"
  shows "capture cfg embedder sim ev pts options llmCall =
           \<lparr>result = Inr \<lparr>response = as_T (r_response candidate), cached = True,
                           cost_saved = Some True\<rparr>,
            store_after = pts, llm_calls = 0\<rparr> \<and>
         (case resolved_threshold cfg options of None \<Rightarrow> 0.8 | Some t \<Rightarrow> t) \<le> r_score candidate"
proof
  from assms(3) have "is_fresh (resolved_maxAge cfg options) (age_of (age_now ev) candidate)"
    by (auto simp: is_fresh_def)
  with assms(1,2) show "capture cfg embedder sim ev pts options llmCall =
           \<lparr>result = Inr \<lparr>response = as_T (r_response candidate), cached = True,
                           cost_saved = Some True\<rparr>,
            store_after = pts, llm_calls = 0\<rparr>"
    by (simp add: capture_def Let_def)
next
  have "candidate \<in> set (candidate # rest)" by simp
  from search_Inr_D[OF assms(2) this]
  show "(case resolved_threshold cfg options of None \<Rightarrow> 0.8 | Some t \<Rightarrow> t) \<le> r_score candidate"
    by (auto simp: r_score_to_cached)
qed

theorem capture_hit_witness:
  "capture default_config (local_embedder 4) dot (calm 5000 ''id2'') [paris_point (Some ''org1'')]
     (request (Some ''org1'')) (Inl (Error ''unused'')) =
   \<lparr>result = Inr \<lparr>response = JStr (quote ''Paris''), cached = True, cost_saved = Some True\<rparr>,
    store_after = [paris_point (Some ''org1'')], llm_calls = 0\<rparr>"
proof -
  let ?opts = "request (Some ''org1'')" and ?ev = "calm 5000 ''id2''"
  let ?cand = "\<lparr>r_id = ''id1'', r_response = Some (quote ''Paris''), r_score = 1,
            r_metadata = Some (with_prompt (o_metadata (request (Some ''org1''))) ''capital''),
            r_createdAt = 1000\<rparr>"
  have e: "local_embedder 4 (o_prompt ?opts) = Inr [1, 0, 0, 0]"
    by (simp add: request_simps)
  have s: "search dot (search_fault ?ev) (search_now ?ev) [paris_point (Some ''org1'')] [1, 0, 0, 0]
             (Some 1) (resolved_threshold default_config ?opts)
             (Some (scoping_filter (o_metadata ?opts))) = Inr (?cand # [])"
    using search_paris[of 5000 "Some ''org1''"]
    by (simp add: request_def calm_def default_config_def resolved_threshold_def)
  have f: "resolved_maxAge default_config ?opts = None \<or>
           resolved_maxAge default_config ?opts = Some 0 \<or>
           (\<exists>m. resolved_maxAge default_config ?opts = Some m \<and> age_of (age_now ?ev) ?cand < m)"
    by (simp add: request_simps age_of_def)
  show ?thesis
    using capture_hit[where embedder = "local_embedder 4" and options = ?opts and ev = ?ev
        and cfg = default_config and llmCall = "Inl (Error ''unused'')", OF e s f, THEN conjunct1]
    by (simp add: as_T_def)
qed

text \<open>
  C2. When the search of a capture call returns a candidate whose age is at or above the
  resolved \<^verbatim>\<open>maxAge\<close>, and that is not zero, the candidate is stale: the call invokes
  the producer exactly once and, where the producer returns a value and the upsert
  succeeds, returns that value with \<^verbatim>\<open>cached = false\<close> and writes a record for it, a new
  one where the id is new to the collection.
\<close>

theorem capture_stale:
  assumes "embedder (o_prompt options) = Inr vector"
    and "search sim (search_fault ev) (search_now ev) pts vector (Some 1)
           (resolved_threshold cfg options) (Some (scoping_filter (o_metadata options)))
         = Inr (candidate # rest)"
    and "resolved_maxAge cfg options = Some m" and "m \<noteq> 0"
    and "m \<le> age_of (age_now ev) candidate"
  shows "llm_calls (capture cfg embedder sim ev pts options llmCall) = 1 \<and>
         (llmCall = Inr p \<and> store_fault ev = None \<longrightarrow>
            result (capture cfg embedder sim ev pts options llmCall) =
              Inr \<lparr>response = p, cached = False, cost_saved = None\<rparr> \<and>
            (let written = new_point (store_uuid ev) (store_now ev) vector (JSON_stringify p)
                             (with_prompt (o_metadata options) (o_prompt options)) (Some m)
             in written \<in> set (store_after (capture cfg embedder sim ev pts options llmCall)) \<and>
                (store_uuid ev \<notin> set (map pt_id pts) \<longrightarrow>
                   store_after (capture cfg embedder sim ev pts options llmCall) = pts @ [written])))"
proof -
  from assms(3-5) have "\<not> is_fresh (resolved_maxAge cfg options) (age_of (age_now ev) candidate)"
    by (simp add: is_fresh_def)
  with assms(1,2)
  have miss: "capture cfg embedder sim ev pts options llmCall =
              capture_miss cfg ev pts options vector llmCall"
    by (simp add: capture_def Let_def)
  let ?w = "new_point (store_uuid ev) (store_now ev) vector (JSON_stringify p)
              (with_prompt (o_metadata options) (o_prompt options)) (Some m)"
  have calls: "llm_calls (capture cfg embedder sim ev pts options llmCall) = 1"
    by (simp add: miss capture_miss_calls)
  have replaced: "uuid \<in> set (map pt_id qs) \<Longrightarrow>
      w \<in> set (map (\<lambda>q. if pt_id q = uuid then w else q) qs)" for uuid w qs
    by (induction qs) auto
  {
    assume ok: "llmCall = Inr p" "store_fault ev = None"
    have out: "capture_miss cfg ev pts options vector llmCall =
          \<lparr>result = Inr \<lparr>response = p, cached = False, cost_saved = None\<rparr>,
           store_after = (if store_uuid ev \<in> set (map pt_id pts)
                          then map (\<lambda>q. if pt_id q = store_uuid ev then ?w else q) pts
                          else pts @ [?w]),
           llm_calls = 1\<rparr>"
      using ok assms(3) by (simp add: capture_miss_def Let_def store_ok)
    have "result (capture cfg embedder sim ev pts options llmCall) =
            Inr \<lparr>response = p, cached = False, cost_saved = None\<rparr>"
      by (simp add: miss out)
    moreover have "?w \<in> set (store_after (capture cfg embedder sim ev pts options llmCall))"
      using replaced[of "store_uuid ev" pts ?w] by (simp add: miss out)
    moreover have "store_uuid ev \<notin> set (map pt_id pts) \<longrightarrow>
            store_after (capture cfg embedder sim ev pts options llmCall) = pts @ [?w]"
      by (simp add: miss out)
    ultimately have "result (capture cfg embedder sim ev pts options llmCall) =
              Inr \<lparr>response = p, cached = False, cost_saved = None\<rparr> \<and>
            (let written = ?w
             in written \<in> set (store_after (capture cfg embedder sim ev pts options llmCall)) \<and>
                (store_uuid ev \<notin> set (map pt_id pts) \<longrightarrow>
                   store_after (capture cfg embedder sim ev pts options llmCall) = pts @ [written]))"
      by (simp add: Let_def)
  }
  with calls show ?thesis by blast
qed

theorem capture_stale_witness:
  "llm_calls (capture default_config (local_embedder 4) dot (calm 71000 ''id2'')
      [paris_point (Some ''org1'')] (request (Some ''org1'')) (Inr (JStr ''Paris, France''))) = 1 \<and>
   result (capture default_config (local_embedder 4) dot (calm 71000 ''id2'')
      [paris_point (Some ''org1'')] (request (Some ''org1'')) (Inr (JStr ''Paris, France''))) =
     Inr \<lparr>response = JStr ''Paris, France'', cached = False, cost_saved = None\<rparr> \<and>
   store_after (capture default_config (local_embedder 4) dot (calm 71000 ''id2'')
      [paris_point (Some ''org1'')] (request (Some ''org1'')) (Inr (JStr ''Paris, France''))) =
     [paris_point (Some ''org1''),
      new_point ''id2'' 71000 [1, 0, 0, 0] (Some (quote ''Paris, France''))
        (with_prompt (o_metadata (request (Some ''org1''))) ''capital'') (Some 60)]"
proof -
  let ?opts = "request (Some ''org1'')" and ?ev = "calm 71000 ''id2''"
  let ?cand = "\<lparr>r_id = ''id1'', r_response = Some (quote ''Paris''), r_score = 1,
            r_metadata = Some (with_prompt (o_metadata (request (Some ''org1''))) ''capital''),
            r_createdAt = 1000\<rparr>"
  have e: "local_embedder 4 (o_prompt ?opts) = Inr [1, 0, 0, 0]"
    by (simp add: request_simps)
  have s: "search dot (search_fault ?ev) (search_now ?ev) [paris_point (Some ''org1'')] [1, 0, 0, 0]
             (Some 1) (resolved_threshold default_config ?opts)
             (Some (scoping_filter (o_metadata ?opts))) = Inr (?cand # [])"
    using search_paris[of 71000 "Some ''org1''"]
    by (simp add: request_def calm_def default_config_def resolved_threshold_def)
  have m: "resolved_maxAge default_config ?opts = Some 60" "(60::real) \<noteq> 0"
    by (simp_all add: request_simps)
  have a: "60 \<le> age_of (age_now ?ev) ?cand"
    by (simp add: calm_def age_of_def)
  have u: "store_uuid ?ev \<notin> set (map pt_id [paris_point (Some ''org1'')])"
    by (simp add: calm_def paris_point_def new_point_def)
  show ?thesis
    using capture_stale[where embedder = "local_embedder 4" and options = ?opts and ev = ?ev
        and cfg = default_config and llmCall = "Inr (JStr ''Paris, France'')"
        and p = "JStr ''Paris, France''", OF e s m a] u
    by (simp add: Let_def calm_def request_def)
qed

text \<open>
  C3, as the code has it. Let a capture call of tenant \<open>A\<close> run on a collection, with
  an id that is new to it, and let \<open>B\<close> be another tenant that is not the empty string.
  No payload of tenant \<open>A\<close> satisfies the filter of a lookup of tenant \<open>B\<close>; every
  search under that filter, and the value and the producer calls of every capture call
  of tenant \<open>B\<close>, are the same on the collection after the call of \<open>A\<close> as on the
  collection before it.
\<close>

theorem tenant_isolation:
  assumes "tenantId (o_metadata optionsA) = Some A"
    and "tenantId (o_metadata optionsB) = Some B"
    and "A \<noteq> B" and "B \<noteq> []"
    and "store_uuid evA \<notin> set (map pt_id pts)"
  shows "(\<forall>pl. string_field pl ''metadata.tenantId'' = Some A \<longrightarrow>
             \<not> filter_holds (scoping_filter (o_metadata optionsB)) pl) \<and>
         (let after = store_after (capture cfgA embedderA simA evA pts optionsA llmCallA)
          in search sim fault now after v limit thr (Some (scoping_filter (o_metadata optionsB)))
               = search sim fault now pts v limit thr (Some (scoping_filter (o_metadata optionsB))) \<and>
             result (capture cfg embedder sim evB after optionsB llmCallB)
               = result (capture cfg embedder sim evB pts optionsB llmCallB) \<and>
             llm_calls (capture cfg embedder sim evB after optionsB llmCallB)
               = llm_calls (capture cfg embedder sim evB pts optionsB llmCallB))"
proof -
  let ?f = "scoping_filter (o_metadata optionsB)"
  let ?after = "store_after (capture cfgA embedderA simA evA pts optionsA llmCallA)"
  have excl: "\<not> filter_holds ?f pl" if "string_field pl ''metadata.tenantId'' = Some A" for pl
    using that assms(3) by (simp add: filter_holds_scoping[OF assms(2,4)])
  have same: "search sim' fault' now' ?after v' l' t' (Some ?f) =
              search sim' fault' now' pts v' l' t' (Some ?f)" for sim' fault' now' v' l' t'
  proof -
    from capture_store_after[OF assms(5), of cfgA embedderA simA optionsA llmCallA]
    consider "?after = pts"
      | w r where "?after = pts @ [new_point (store_uuid evA) (store_now evA) w r
                     (with_prompt (o_metadata optionsA) (o_prompt optionsA))
                     (resolved_maxAge cfgA optionsA)]"
      by blast
    then show ?thesis
    proof cases
      case 1
      then show ?thesis by simp
    next
      case 2
      have "\<not> filter_holds ?f (pt_payload (new_point (store_uuid evA) (store_now evA) w r
                     (with_prompt (o_metadata optionsA) (o_prompt optionsA))
                     (resolved_maxAge cfgA optionsA)))"
        by (rule excl) (simp add: tenant_new_point assms(1))
      then show ?thesis
        unfolding 2 by (rule search_append_unmatched)
    qed
  qed
  have "result (capture cfg embedder sim evB ?after optionsB llmCallB)
               = result (capture cfg embedder sim evB pts optionsB llmCallB) \<and>
        llm_calls (capture cfg embedder sim evB ?after optionsB llmCallB)
               = llm_calls (capture cfg embedder sim evB pts optionsB llmCallB)"
    by (rule capture_result_cong) (rule same)
  with excl same show ?thesis
    by (simp add: Let_def)
qed

theorem tenant_isolation_witness:
  "search dot None 5000
     (store_after (capture default_config (local_embedder 4) dot (calm 1000 ''id1'') []
        (request (Some ''org1'')) (Inr (JStr ''Paris''))))
     [1, 0, 0, 0] (Some 1) (Some 0.85) (Some (scoping_filter (o_metadata (request (Some ''org2'')))))
   = Inr [] \<and>
   result (capture default_config (local_embedder 4) dot (calm 5000 ''id2'')
     (store_after (capture default_config (local_embedder 4) dot (calm 1000 ''id1'') []
        (request (Some ''org1'')) (Inr (JStr ''Paris''))))
     (request (Some ''org2'')) (Inr (JStr ''Lyon'')))
   = Inr \<lparr>response = JStr ''Lyon'', cached = False, cost_saved = None\<rparr>"
proof -
  have a: "tenantId (o_metadata (request (Some ''org1''))) = Some ''org1''"
    and b: "tenantId (o_metadata (request (Some ''org2''))) = Some ''org2''"
    by (simp_all add: request_def)
  have ne: "''org1'' \<noteq> ''org2''" "''org2'' \<noteq> []" by simp_all
  have u: "store_uuid (calm 1000 ''id1'') \<notin> set (map pt_id [])" by simp
  show ?thesis
    using tenant_isolation[where optionsA = "request (Some ''org1'')"
        and optionsB = "request (Some ''org2'')" and evA = "calm 1000 ''id1''" and pts = "[]"
        and cfgA = default_config and embedderA = "local_embedder 4" and simA = dot
        and llmCallA = "Inr (JStr ''Paris'')" and sim = dot and fault = None and now = 5000
        and v = "[1, 0, 0, 0]" and limit = "Some 1" and thr = "Some 0.85"
        and cfg = default_config and embedder = "local_embedder 4" and evB = "calm 5000 ''id2''"
        and llmCallB = "Inr (JStr ''Lyon'')", OF a b ne u, THEN conjunct2]
    by (simp add: Let_def search_empty capture_on_empty)
qed

text \<open>
  C3 as stated fails for a tenant that is present and is the empty string:
  \<^verbatim>\<open>if (metadata.tenantId)\<close> is false for it, its lookup has no filter, and it is served
  the record of tenant \<^verbatim>\<open>org1\<close>.
\<close>

theorem tenant_isolation_counterexample:
  "tenantId (o_metadata (request (Some ''org1''))) = Some ''org1'' \<and>
   tenantId (o_metadata (request (Some []))) = Some [] \<and>
   capture default_config (local_embedder 4) dot (calm 5000 ''id2'')
     (store_after (capture default_config (local_embedder 4) dot (calm 1000 ''id1'') []
        (request (Some ''org1'')) (Inr (JStr ''Paris''))))
     (request (Some [])) (Inl (Error ''unused''))
   = \<lparr>result = Inr \<lparr>response = JStr (quote ''Paris''), cached = True, cost_saved = Some True\<rparr>,
      store_after = [paris_point (Some ''org1'')], llm_calls = 0\<rparr>"
proof -
  have "filter_holds (scoping_filter (o_metadata (request (Some []))))
          (pt_payload (paris_point (Some ''org1'')))"
    by (simp add: scoping_filter_def request_def filter_holds_def)
  then show ?thesis
    by (simp add: first_capture second_capture) (simp add: request_def)
qed

text \<open>
  C4 fails on the code. A miss whose producer returns the string \<^verbatim>\<open>Paris\<close> returns it
  and stores its JSON text; the later hit on that record returns the JSON text, the
  seven characters \<^verbatim>\<open>"Paris"\<close> with the quotation marks, and not the string that the
  producer returned.
\<close>

theorem capture_roundtrip_failing_input:
  "result (capture default_config (local_embedder 4) dot (calm 1000 ''id1'') []
     (request (Some ''org1'')) (Inr (JStr ''Paris'')))
   = Inr \<lparr>response = JStr ''Paris'', cached = False, cost_saved = None\<rparr> \<and>
   result (capture default_config (local_embedder 4) dot (calm 5000 ''id2'')
     (store_after (capture default_config (local_embedder 4) dot (calm 1000 ''id1'') []
        (request (Some ''org1'')) (Inr (JStr ''Paris''))))
     (request (Some ''org1'')) (Inl (Error ''unused'')))
   = Inr \<lparr>response = JStr (CHR 0x22 # ''Paris'' @ [CHR 0x22]), cached = True,
           cost_saved = Some True\<rparr> \<and>
   JStr (CHR 0x22 # ''Paris'' @ [CHR 0x22]) \<noteq> JStr ''Paris''"
proof -
  have "filter_holds (scoping_filter (o_metadata (request (Some ''org1''))))
          (pt_payload (paris_point (Some ''org1'')))"
    by (simp add: filter_holds_scoping[of _ "''org1''"] request_def paris_point_def
        tenant_new_point)
  moreover have "quote ''Paris'' = CHR 0x22 # ''Paris'' @ [CHR 0x22]"
    by (simp add: quote_def escapeChar_def)
  ultimately show ?thesis
    by (simp add: first_capture second_capture)
qed

text \<open>
  C5. When the producer that a capture call invokes fails, the call fails with that very
  failure and the collection is as it was before the call.
\<close>

theorem capture_producer_failure:
  assumes "llmCall = Inl e"
    and "llm_calls (capture cfg embedder sim ev pts options llmCall) = 1"
  shows "result (capture cfg embedder sim ev pts options llmCall) = Inl e \<and>
         store_after (capture cfg embedder sim ev pts options llmCall) = pts"
  using assms
  by (auto simp: capture_def capture_miss_def Let_def split: sum.splits list.splits if_splits)

theorem capture_producer_failure_witness:
  "llm_calls (capture default_config (local_embedder 4) dot (calm 5000 ''id2'') []
      (request (Some ''org1'')) (Inl (Error ''rate limit''))) = 1 \<and>
   result (capture default_config (local_embedder 4) dot (calm 5000 ''id2'') []
      (request (Some ''org1'')) (Inl (Error ''rate limit''))) = Inl (Error ''rate limit'') \<and>
   store_after (capture default_config (local_embedder 4) dot (calm 5000 ''id2'') []
      (request (Some ''org1'')) (Inl (Error ''rate limit''))) = []"
proof -
  have c: "llm_calls (capture default_config (local_embedder 4) dot (calm 5000 ''id2'') []
      (request (Some ''org1'')) (Inl (Error ''rate limit''))) = 1"
    by (simp add: capture_def Let_def local_embedder_def calm_def search_empty capture_miss_calls)
  show ?thesis
    using capture_producer_failure[OF refl c] c by simp
qed

text \<open>
  C6, as the code has it. \<^verbatim>\<open>cleanup\<close>, reading the clock as \<open>now\<close>, never fails. When
  its delete succeeds it removes exactly the records whose \<^verbatim>\<open>expiresAt\<close> is strictly below
  \<open>now\<close> and leaves every other record, the records without \<^verbatim>\<open>expiresAt\<close> among them,
  unchanged and in place; when its delete fails the collection stays as it was.
\<close>

theorem cleanup_removes_expired:
  "fst (cleanup fault now pts) = Inr () \<and>
   (fault = None \<longrightarrow>
      snd (cleanup fault now pts) =
        filter (\<lambda>p. case p_expiresAt (pt_payload p) of None \<Rightarrow> True | Some x \<Rightarrow> now \<le> x) pts) \<and>
   (fault \<noteq> None \<longrightarrow> snd (cleanup fault now pts) = pts)"
  by (cases fault) (simp_all add: cleanup_ok cleanup_fails)

theorem cleanup_removes_expired_witness:
  "snd (cleanup None 61001 [paris_point None, new_point ''id3'' 1000 [0, 1, 0, 0] None
          (with_prompt (o_metadata (request None)) ''other'') None]) =
     [new_point ''id3'' 1000 [0, 1, 0, 0] None (with_prompt (o_metadata (request None)) ''other'') None] \<and>
   cleanup (Some (Error ''unreachable'')) 61001 [paris_point None] = (Inr (), [paris_point None])"
proof -
  have n: "p_expiresAt (pt_payload (new_point ''id3'' 1000 [0, 1, 0, 0] None
          (with_prompt (o_metadata (request None)) ''other'') None)) = None"
    by (simp add: new_point_def)
  have "snd (cleanup None 61001 [paris_point None, new_point ''id3'' 1000 [0, 1, 0, 0] None
          (with_prompt (o_metadata (request None)) ''other'') None]) =
     [new_point ''id3'' 1000 [0, 1, 0, 0] None (with_prompt (o_metadata (request None)) ''other'') None]"
    using cleanup_removes_expired[of None 61001 "[paris_point None, new_point ''id3'' 1000 [0, 1, 0, 0] None
          (with_prompt (o_metadata (request None)) ''other'') None]"]
    by (simp add: expiresAt_paris n)
  moreover have "cleanup (Some (Error ''unreachable'')) 61001 [paris_point None] = (Inr (), [paris_point None])"
    using cleanup_removes_expired[of "Some (Error ''unreachable'')" 61001 "[paris_point None]"]
    by (simp add: prod_eq_iff)
  ultimately show ?thesis by simp
qed

text \<open>
  C6 as stated fails on the boundary: a record whose \<^verbatim>\<open>expiresAt\<close> equals \<open>now\<close> stays.
\<close>

theorem cleanup_boundary_counterexample:
  "p_expiresAt (pt_payload (paris_point None)) = Some 61000 \<and>
   cleanup None 61000 [paris_point None] = (Inr (), [paris_point None])"
  by (simp add: cleanup_ok expiresAt_paris)




text \<open>
  C8. For every input text, \<open>embed\<close> of the local provider returns a vector whose length
  is the configured dimension.
\<close>

theorem embed_length: "length (embed dim' text) = dim'"
  by (simp add: embed_def Let_def length_foldl_accumulate)

theorem embed_length_witness: "length (embed 4 ''capital'') = 4"
  using embed_length[of 4 "''capital''"] by simp

text \<open>
  C9. With a dimension of at least 1: a text without tokens, which is an empty or
  white-space-only text, embeds as the all-zero vector; every other text embeds as a
  vector of Euclidean norm 1. The accumulator is divided by its norm exactly when that
  norm is not zero. (Numbers are exact here, so the norm is 1 and not only close to 1.)
\<close>

theorem embed_zero_or_unit:
  assumes "0 < dim'"
  shows "(tokens text = [] \<longleftrightarrow> (\<forall>c\<in>set text. isWhitespace c)) \<and>
         (if tokens text = [] then embed dim' text = replicate dim' 0
          else euclidean_norm (embed dim' text) = 1) \<and>
         embed dim' text =
           (let acc = foldl (accumulate dim') (replicate dim' 0) (tokens text)
            in if euclidean_norm acc \<noteq> 0 then map (\<lambda>v. v / euclidean_norm acc) acc
               else acc)"
proof (intro conjI)
  show "tokens text = [] \<longleftrightarrow> (\<forall>c\<in>set text. isWhitespace c)"
    by (rule tokens_Nil_iff)
  show "if tokens text = [] then embed dim' text = replicate dim' 0
        else euclidean_norm (embed dim' text) = 1"
    using assms by (simp add: embed_no_tokens embed_unit)
  show "embed dim' text =
          (let acc = foldl (accumulate dim') (replicate dim' 0) (tokens text)
           in if euclidean_norm acc \<noteq> 0 then map (\<lambda>v. v / euclidean_norm acc) acc
              else acc)"
    by (rule embed_by_norm)
qed

theorem embed_zero_or_unit_witness:
  "(0::nat) < 4 \<and> tokens ''Hello  World'' \<noteq> [] \<and>
   euclidean_norm (embed 4 ''Hello  World'') = 1 \<and>
   tokens [CHR '' '', CHR 0x09] = [] \<and> embed 4 [CHR '' '', CHR 0x09] = [0, 0, 0, 0]"
proof -
  have t1: "tokens ''Hello  World'' = [''hello'', ''world'']" by code_simp
  have t2: "tokens [CHR '' '', CHR 0x09] = []" by code_simp
  have pos: "(0::nat) < 4" by simp
  have "euclidean_norm (embed 4 ''Hello  World'') = 1"
    using embed_zero_or_unit[OF pos, of "''Hello  World''", THEN conjunct2, THEN conjunct1] t1
    by simp
  moreover have "embed 4 [CHR '' '', CHR 0x09] = replicate 4 0"
    using embed_zero_or_unit[OF pos, of "[CHR '' '', CHR 0x09]", THEN conjunct2, THEN conjunct1] t2
    by simp
  ultimately show ?thesis using t1 t2 by (simp add: numeral_eq_Suc)
qed

text \<open>
  C10. When the request has no \<^verbatim>\<open>tenantId\<close>, the filter of capture has no condition: it
  holds for every payload, the search is the search without a filter, and a lone record
  at or above the threshold is returned whatever tenant it was stored under.
\<close>

theorem capture_unscoped:
  assumes "tenantId (o_metadata options) = None"
  shows "scoping_filter (o_metadata options) = \<lparr>must = None\<rparr> \<and>
         (\<forall>pl. filter_holds (scoping_filter (o_metadata options)) pl) \<and>
         search sim fault now pts v limit thr (Some (scoping_filter (o_metadata options)))
           = search sim fault now pts v limit thr None \<and>
         (\<forall>p. (case thr of None \<Rightarrow> 0.8 | Some t \<Rightarrow> t) \<le> sim v (pt_vector p) \<longrightarrow>
            search sim None now [p] v (Some 1) thr (Some (scoping_filter (o_metadata options)))
              = Inr [to_cached now \<lparr>sc_id = pt_id p, sc_score = sim v (pt_vector p),
                                      sc_payload = pt_payload p\<rparr>])"
proof -
  have f: "scoping_filter (o_metadata options) = \<lparr>must = None\<rparr>"
    using assms by (simp add: scoping_filter_def)
  have single: "search sim None now [p] v (Some 1) thr (Some \<lparr>must = None\<rparr>)
              = Inr [to_cached now \<lparr>sc_id = pt_id p, sc_score = sim v (pt_vector p),
                                      sc_payload = pt_payload p\<rparr>]"
    if "(case thr of None \<Rightarrow> 0.8 | Some t \<Rightarrow> t) \<le> sim v (pt_vector p)" for p
    using that
    by (intro search_single[where sim = sim and thr = thr and fo = "Some \<lparr>must = None\<rparr>"])
       (simp_all add: filter_holds_unscoped)
  show ?thesis
    unfolding f
    using single by (simp only: filter_holds_unscoped search_no_filter simp_thms) blast
qed

theorem capture_unscoped_witness:
  "tenantId (o_metadata (request None)) = None \<and>
   string_field (pt_payload (paris_point (Some ''org1''))) ''metadata.tenantId'' = Some ''org1'' \<and>
   search dot None 5000 [paris_point (Some ''org1'')] [1, 0, 0, 0] (Some 1) (Some 0.85)
     (Some (scoping_filter (o_metadata (request None))))
   = Inr [\<lparr>r_id = ''id1'', r_response = Some (quote ''Paris''), r_score = 1,
            r_metadata = Some (with_prompt (o_metadata (request (Some ''org1''))) ''capital''),
            r_createdAt = 1000\<rparr>] \<and>
   capture default_config (local_embedder 4) dot (calm 5000 ''id2'') [paris_point (Some ''org1'')]
     (request None) (Inl (Error ''unused''))
   = \<lparr>result = Inr \<lparr>response = JStr (quote ''Paris''), cached = True, cost_saved = Some True\<rparr>,
      store_after = [paris_point (Some ''org1'')], llm_calls = 0\<rparr>"
proof -
  have n: "tenantId (o_metadata (request None)) = None"
    by (simp add: request_def)
  have t: "string_field (pt_payload (paris_point (Some ''org1''))) ''metadata.tenantId''
             = Some ''org1''"
    by (simp add: paris_point_def tenant_new_point request_def)
  note u = capture_unscoped[where options = "request None", OF n]
  have h: "filter_holds (scoping_filter (o_metadata (request None)))
             (pt_payload (paris_point (Some ''org1'')))"
    using u[THEN conjunct2, THEN conjunct1] by simp
  have s: "search dot None 5000 [paris_point (Some ''org1'')] [1, 0, 0, 0] (Some 1) (Some 0.85)
     (Some (scoping_filter (o_metadata (request None))))
   = Inr [\<lparr>r_id = ''id1'', r_response = Some (quote ''Paris''), r_score = 1,
            r_metadata = Some (with_prompt (o_metadata (request (Some ''org1''))) ''capital''),
            r_createdAt = 1000\<rparr>]"
    by (rule search_paris_any[OF h])
  from n t s second_capture[OF h] show ?thesis by simp
qed

end
